theory Spec2Isabelle
  imports Complex_Main "HOL-Library.Word" "HOL-Library.Sublist"
begin

section \<open>The runtime the action relies on\<close>

text \<open>
  The renderer of \<^verbatim>\<open>src/actions/show-wan-ip.ts\<close> builds its markup with template
  literals, which interpolate JavaScript numbers, and hands the markup to
  \<^verbatim>\<open>Buffer.from(svg).toString("base64")\<close>. Both belong to the language runtime, not to
  the repository; they are written out here so that the payload of the model is the
  payload of the program, byte for byte.

  A JavaScript string is modelled as a \<^typ>\<open>string\<close>: a list of code units below 256
  (the Latin-1 range). Code units above that range are outside the model.
\<close>

subsection \<open>Numbers: IEEE 754 binary64 and their decimal form\<close>

text \<open>
  A finite JavaScript number is the rational it denotes. Every arithmetic operation is
  the exact operation followed by rounding to the nearest binary64 value, ties to even.
  Overflow to infinity is outside the model (every number of the program is below 1000).
\<close>

type_synonym jsnum = rat

text \<open>The number of binary digits of a positive integer.\<close>

function bitlen_int :: "int \<Rightarrow> nat" where
  "bitlen_int n = (if n \<le> 0 then 0 else Suc (bitlen_int (n div 2)))"
  by pat_completeness auto
termination
  by (relation "measure nat") auto

declare bitlen_int.simps [simp del]

definition pow2 :: "int \<Rightarrow> rat" where
  "pow2 e = (if 0 \<le> e then 2 ^ nat e else 1 / 2 ^ nat (- e))"

definition pow10 :: "int \<Rightarrow> rat" where
  "pow10 e = (if 0 \<le> e then 10 ^ nat e else 1 / 10 ^ nat (- e))"

text \<open>The integer nearest to a rational, a tie going to the even neighbour.\<close>

definition round_half_even :: "rat \<Rightarrow> int" where
  "round_half_even x =
     (let f = \<lfloor>x\<rfloor>; d = x - of_int f in
      if d < 1 / 2 then f
      else if 1 / 2 < d then f + 1
      else if even f then f else f + 1)"

text \<open>\<open>ilog2 x\<close> is the integer \<open>e\<close> with \<open>2 ^ e \<le> x < 2 ^ (e + 1)\<close>, for positive \<open>x\<close>.\<close>

definition ilog2 :: "rat \<Rightarrow> int" where
  "ilog2 x =
     (let (p, q) = quotient_of x;
          g = int (bitlen_int p) - int (bitlen_int q) in
      if pow2 g \<le> x then g else g - 1)"

definition round_double :: "rat \<Rightarrow> jsnum" where
  "round_double x =
     (if x = 0 then 0
      else let a = \<bar>x\<bar>;
               e = max (ilog2 a - 52) (- 1074);
               m = round_half_even (a / pow2 e) in
           sgn x * of_int m * pow2 e)"

definition fmul :: "jsnum \<Rightarrow> jsnum \<Rightarrow> jsnum" where
  "fmul a b = round_double (a * b)"

definition fdiv :: "jsnum \<Rightarrow> jsnum \<Rightarrow> jsnum" where
  "fdiv a b = round_double (a / b)"

definition fadd :: "jsnum \<Rightarrow> jsnum \<Rightarrow> jsnum" where
  "fadd a b = round_double (a + b)"

definition fsub :: "jsnum \<Rightarrow> jsnum \<Rightarrow> jsnum" where
  "fsub a b = round_double (a - b)"

text \<open>A decimal literal of the source, such as \<^verbatim>\<open>1.3\<close>, denotes the nearest binary64 value.\<close>

definition js_lit :: "rat \<Rightarrow> jsnum" where
  "js_lit r = round_double r"

text \<open>
  \<^verbatim>\<open>Number::toString\<close> of ECMAScript: the shortest digit string \<open>s\<close> (of \<open>k\<close> digits) and
  the exponent \<open>n\<close> such that \<open>s \<times> 10 ^ (n - k)\<close> rounds to the number; then the digits
  are laid out with the decimal point or the exponent the standard prescribes.
\<close>

definition digit_char :: "int \<Rightarrow> char" where
  "digit_char d = char_of (48 + d)"

text \<open>The decimal digits of a non-negative integer.\<close>

function show_int :: "int \<Rightarrow> string" where
  "show_int n = (if n < 10 then [digit_char n] else show_int (n div 10) @ [digit_char (n mod 10)])"
  by pat_completeness auto
termination
  by (relation "measure nat") auto

declare show_int.simps [simp del]

text \<open>\<open>ilog10 x\<close> is the integer \<open>n\<close> with \<open>10 ^ (n - 1) \<le> x < 10 ^ n\<close>, for positive \<open>x\<close>.\<close>

definition ilog10 :: "rat \<Rightarrow> int" where
  "ilog10 x =
     (if 1 \<le> x then int (length (show_int \<lfloor>x\<rfloor>))
      else 1 - int (length (show_int (\<lceil>1 / x\<rceil> - 1))))"

text \<open>The \<open>k\<close>-digit decimal nearest to \<open>x\<close>, as its digits and its exponent.\<close>

definition nearest_decimal :: "rat \<Rightarrow> int \<Rightarrow> nat \<Rightarrow> int \<times> int" where
  "nearest_decimal x n k =
     (let s = round_half_even (x / pow10 (n - int k)) in
      if 10 ^ k \<le> s then (10 ^ (k - 1), n + 1) else (s, n))"

fun shortest_decimal :: "rat \<Rightarrow> int \<Rightarrow> nat \<Rightarrow> nat \<Rightarrow> int \<times> int \<times> nat" where
  "shortest_decimal x n k 0 = (case nearest_decimal x n k of (s, n') \<Rightarrow> (s, n', k))"
| "shortest_decimal x n k (Suc fuel) =
     (case nearest_decimal x n k of (s, n') \<Rightarrow>
        if round_double (of_int s * pow10 (n' - int k)) = x then (s, n', k)
        else shortest_decimal x n (Suc k) fuel)"

definition show_positive :: "rat \<Rightarrow> string" where
  "show_positive x =
     (case shortest_decimal x (ilog10 x) 1 16 of (s, n, k) \<Rightarrow>
        let ds = show_int s in
        if int k \<le> n \<and> n \<le> 21 then ds @ replicate (nat (n - int k)) (CHR ''0'')
        else if 0 < n \<and> n \<le> 21 then take (nat n) ds @ ''.'' @ drop (nat n) ds
        else if - 6 < n \<and> n \<le> 0 then ''0.'' @ replicate (nat (- n)) (CHR ''0'') @ ds
        else let e = n - 1;
                 ex = (if 0 \<le> e then ''+'' else ''-'') @ show_int \<bar>e\<bar> in
             if k = 1 then ds @ ''e'' @ ex
             else take 1 ds @ ''.'' @ drop 1 ds @ ''e'' @ ex)"

definition num_to_string :: "jsnum \<Rightarrow> string" where
  "num_to_string x =
     (if x = 0 then ''0''
      else if x < 0 then ''-'' @ show_positive (- x)
      else show_positive x)"

subsection \<open>Bytes: UTF-8 and Base64\<close>

text \<open>
  \<^verbatim>\<open>Buffer.from(svg)\<close> encodes the string in UTF-8: a code unit below 128 is one byte,
  a code unit from 128 to 255 is two. \<^verbatim>\<open>toString("base64")\<close> writes three bytes as four
  six-bit digits in the standard alphabet and pads the last group with \<^verbatim>\<open>=\<close>.
\<close>

type_synonym byte = "8 word"

definition utf8_char :: "char \<Rightarrow> byte list" where
  "utf8_char c =
     (let n = of_char c :: nat in
      if n < 128 then [of_nat n]
      else [of_nat (192 + n div 64), of_nat (128 + n mod 64)])"

definition utf8_encode :: "string \<Rightarrow> byte list" where
  "utf8_encode s = concat (map utf8_char s)"

definition b64_char :: "nat \<Rightarrow> char" where
  "b64_char n =
     (if n < 26 then char_of (65 + n)
      else if n < 52 then char_of (71 + n)
      else if n < 62 then char_of (n - 4)
      else if n = 62 then CHR ''+'' else CHR ''/'')"

fun base64 :: "byte list \<Rightarrow> string" where
  "base64 [] = []"
| "base64 [a] =
     [b64_char (unat a div 4), b64_char (unat a mod 4 * 16), CHR ''='', CHR ''='']"
| "base64 [a, b] =
     [b64_char (unat a div 4), b64_char (unat a mod 4 * 16 + unat b div 16),
      b64_char (unat b mod 16 * 4), CHR ''='']"
| "base64 (a # b # c # rest) =
     [b64_char (unat a div 4), b64_char (unat a mod 4 * 16 + unat b div 16),
      b64_char (unat b mod 16 * 4 + unat c div 64), b64_char (unat c mod 64)]
     @ base64 rest"

text \<open>The readers of the payload: a Base64 decoder and a UTF-8 decoder for the same range.\<close>

definition b64_index :: "char \<Rightarrow> nat option" where
  "b64_index c =
     (let n = of_char c :: nat in
      if 65 \<le> n \<and> n \<le> 90 then Some (n - 65)
      else if 97 \<le> n \<and> n \<le> 122 then Some (n - 71)
      else if 48 \<le> n \<and> n \<le> 57 then Some (n + 4)
      else if n = 43 then Some 62
      else if n = 47 then Some 63
      else None)"

fun base64_decode :: "string \<Rightarrow> byte list option" where
  "base64_decode [] = Some []"
| "base64_decode (c0 # c1 # c2 # c3 # rest) =
     (case (b64_index c0, b64_index c1) of
        (Some i0, Some i1) \<Rightarrow>
          if c2 = CHR ''='' \<and> c3 = CHR ''='' \<and> rest = []
          then Some [of_nat (i0 * 4 + i1 div 16)]
          else (case b64_index c2 of
                  None \<Rightarrow> None
                | Some i2 \<Rightarrow>
                    if c3 = CHR ''='' \<and> rest = []
                    then Some [of_nat (i0 * 4 + i1 div 16), of_nat (i1 mod 16 * 16 + i2 div 4)]
                    else (case b64_index c3 of
                            None \<Rightarrow> None
                          | Some i3 \<Rightarrow>
                              map_option
                                (\<lambda>bs. of_nat (i0 * 4 + i1 div 16)
                                        # of_nat (i1 mod 16 * 16 + i2 div 4)
                                        # of_nat (i2 mod 4 * 64 + i3) # bs)
                                (base64_decode rest)))
      | _ \<Rightarrow> None)"
| "base64_decode _ = None"

fun utf8_decode :: "byte list \<Rightarrow> string option" where
  "utf8_decode [] = Some []"
| "utf8_decode [b] = (if unat b < 128 then Some [char_of (unat b)] else None)"
| "utf8_decode (b # b2 # rest) =
     (if unat b < 128 then map_option ((#) (char_of (unat b))) (utf8_decode (b2 # rest))
      else if 194 \<le> unat b \<and> unat b < 196 \<and> 128 \<le> unat b2 \<and> unat b2 < 192
      then map_option ((#) (char_of ((unat b - 192) * 64 + (unat b2 - 128)))) (utf8_decode rest)
      else None)"

subsection \<open>Strings and arrays\<close>

text \<open>
  \<^verbatim>\<open>ip.split(".")\<close>: the pieces between the separators, empty pieces kept, so that a
  string with \<open>n\<close> separators has \<open>n + 1\<close> pieces and the empty string has one.
\<close>

fun split_on :: "char \<Rightarrow> string \<Rightarrow> string list" where
  "split_on sep [] = [[]]"
| "split_on sep (x # xs) =
     (if x = sep then [] # split_on sep xs
      else (case split_on sep xs of
              [] \<Rightarrow> [[x]]
            | piece # pieces \<Rightarrow> (x # piece) # pieces))"

text \<open>
  \<^verbatim>\<open>`${octets[i]}`\<close>: an index past the end of the array reads \<^verbatim>\<open>undefined\<close>, which a
  template literal prints as that word.
\<close>

definition interp_index :: "string list \<Rightarrow> nat \<Rightarrow> string" where
  "interp_index xs i = (if i < length xs then xs ! i else ''undefined'')"

section \<open>The action \<^verbatim>\<open>ShowWanIP\<close>\<close>

text \<open>\<^verbatim>\<open>const KEY_SIZE = 144\<close>, the side of the key image.\<close>

definition KEY_SIZE :: jsnum where
  "KEY_SIZE = 144"

text \<open>
  The fields of the class. A timer and an action of the host are known by a handle;
  \<^verbatim>\<open>null\<close> is \<open>None\<close>. The setting \<^verbatim>\<open>displayLines\<close> is declared \<^verbatim>\<open>1 | 2 | 4\<close>, and holds
  whatever number the stored settings hold.
\<close>

record ShowWanIP =
  refreshInterval :: "nat option"
  currentIP :: string
  currentAction :: "nat option"
  displayLines :: int

text \<open>The instance that \<^verbatim>\<open>new ShowWanIP()\<close> builds, from the field initialisers.\<close>

definition new_ShowWanIP :: ShowWanIP where
  "new_ShowWanIP =
     \<lparr>refreshInterval = None, currentIP = ''Loading...'', currentAction = None,
      displayLines = 1\<rparr>"

subsection \<open>The markup\<close>

text \<open>
  Every image has the same frame, and every line of text the same element; the source
  repeats both in each template literal. \<open>svg_open\<close> is the text of a template up to its
  first \<^verbatim>\<open><text\<close>, and \<open>text_element y fontSize content\<close> is one \<^verbatim>\<open><text>\<close> element.
\<close>

definition svg_open :: string where
  \<open>svg_open =
     ''<svg xmlns="http://www.w3.org/2000/svg" width="'' @ num_to_string KEY_SIZE
     @ ''" height="'' @ num_to_string KEY_SIZE
     @ ''" viewBox="0 0 '' @ num_to_string KEY_SIZE @ '' '' @ num_to_string KEY_SIZE
     @ ''"><rect width="'' @ num_to_string KEY_SIZE
     @ ''" height="'' @ num_to_string KEY_SIZE @ ''" fill="black"/>''\<close>

definition svg_close :: string where
  \<open>svg_close = ''</svg>''\<close>

definition text_element :: "jsnum \<Rightarrow> jsnum \<Rightarrow> string \<Rightarrow> string" where
  \<open>text_element y fontSize content =
     ''<text x="'' @ num_to_string (fdiv KEY_SIZE 2) @ ''" y="'' @ num_to_string y
     @ ''" text-anchor="middle" dominant-baseline="central" fill="white" font-family="Arial, sans-serif" font-size="''
     @ num_to_string fontSize @ ''" font-weight="bold">'' @ content @ ''</text>''\<close>

text \<open>
  The last two lines of every renderer:
  \<^verbatim>\<open>const base64 = Buffer.from(svg).toString("base64"); return `data:image/svg+xml;base64,${base64}`\<close>.
\<close>

definition data_url :: "string \<Rightarrow> string" where
  "data_url svg = ''data:image/svg+xml;base64,'' @ base64 (utf8_encode svg)"

text \<open>What a consumer of the data URL reads back: the markup, when the payload is one.\<close>

definition decode_data_url :: "string \<Rightarrow> string option" where
  "decode_data_url url =
     (if take 26 url = ''data:image/svg+xml;base64,''
      then (case base64_decode (drop 26 url) of
              None \<Rightarrow> None
            | Some bytes \<Rightarrow> utf8_decode bytes)
      else None)"

subsection \<open>The renderers\<close>

definition createStatusImage :: "ShowWanIP \<Rightarrow> string \<Rightarrow> string" where
  "createStatusImage this text =
     (let svg = svg_open @ text_element (fdiv KEY_SIZE 2) 24 text @ svg_close in
      data_url svg)"

definition createSingleLineImage :: "ShowWanIP \<Rightarrow> string \<Rightarrow> string" where
  "createSingleLineImage this text =
     (let len = length text;
          fontSize = (if len \<le> 7 then 26
                      else if len \<le> 11 then 22
                      else if len \<le> 13 then 19
                      else 17);
          svg = svg_open @ text_element (fdiv KEY_SIZE 2) fontSize text @ svg_close in
      data_url svg)"

definition createTwoLineImage :: "ShowWanIP \<Rightarrow> string list \<Rightarrow> string" where
  "createTwoLineImage this octets =
     (let line1 = interp_index octets 0 @ ''.'' @ interp_index octets 1;
          line2 = interp_index octets 2 @ ''.'' @ interp_index octets 3;
          fontSize = 28;
          lineHeight = fmul fontSize (js_lit (13 / 10));
          totalHeight = fmul lineHeight 2;
          startY = fadd (fdiv (fsub KEY_SIZE totalHeight) 2) (fmul fontSize (js_lit (35 / 100)));
          svg = svg_open
                @ text_element (fadd startY (fmul lineHeight (js_lit (5 / 10)))) fontSize line1
                @ text_element (fadd startY (fmul lineHeight (js_lit (15 / 10)))) fontSize line2
                @ svg_close in
      data_url svg)"

text \<open>
  The loop \<^verbatim>\<open>for (let i = 0; i < 4; i++)\<close> of the four-line renderer, appending one element
  to \<^verbatim>\<open>textElements\<close> in each round.
\<close>

fun four_line_loop :: "string list \<Rightarrow> jsnum \<Rightarrow> jsnum \<Rightarrow> jsnum \<Rightarrow> nat list \<Rightarrow> string \<Rightarrow> string" where
  "four_line_loop octets fontSize lineHeight startY [] textElements = textElements"
| "four_line_loop octets fontSize lineHeight startY (i # is) textElements =
     (let y = fadd startY (fmul lineHeight (fadd (of_nat i) (js_lit (5 / 10)))) in
      four_line_loop octets fontSize lineHeight startY is
        (textElements @ text_element y fontSize (interp_index octets i)))"

definition createFourLineImage :: "ShowWanIP \<Rightarrow> string list \<Rightarrow> string" where
  "createFourLineImage this octets =
     (let fontSize = 30;
          lineHeight = fmul fontSize (js_lit (11 / 10));
          totalHeight = fmul lineHeight 4;
          startY = fadd (fdiv (fsub KEY_SIZE totalHeight) 2) (fmul fontSize (js_lit (35 / 100)));
          textElements = four_line_loop octets fontSize lineHeight startY [0, 1, 2, 3] [];
          svg = svg_open @ textElements @ svg_close in
      data_url svg)"

definition createTextImage :: "ShowWanIP \<Rightarrow> string \<Rightarrow> string" where
  "createTextImage this ip =
     (let octets = split_on (CHR ''.'') ip in
      if length octets \<noteq> 4 then createSingleLineImage this ip
      else if displayLines this = 4 then createFourLineImage this octets
      else if displayLines this = 2 then createTwoLineImage this octets
      else createSingleLineImage this ip)"

subsection \<open>The driver\<close>

text \<open>
  What the action does to its collaborators, in the order it does it: an image set on
  the key, a line of the log. The display and the logger accept every call.
\<close>

datatype effect = SetImage string | LogInfo string | LogError string

text \<open>
  What \<^verbatim>\<open>fetch\<close> and \<^verbatim>\<open>response.text()\<close> can do: the request fails, or a response arrives
  with its \<^verbatim>\<open>ok\<close> flag and status, whose body is read (\<open>Some\<close>) or fails to be (\<open>None\<close>).
\<close>

datatype fetch_outcome = NetworkFailure | Response bool int "string option"

text \<open>The \<^verbatim>\<open>try\<close> block up to the assignment: the address, or the exception thrown.\<close>

fun fetched_text :: "fetch_outcome \<Rightarrow> string + string" where
  "fetched_text NetworkFailure = Inl ''fetch failed''"
| "fetched_text (Response ok status body) =
     (if \<not> ok then Inl (''HTTP error: '' @ num_to_string (of_int status))
      else (case body of None \<Rightarrow> Inl ''body failed'' | Some t \<Rightarrow> Inr t))"

definition fetchAndDisplayIP :: "ShowWanIP \<Rightarrow> fetch_outcome \<Rightarrow> ShowWanIP \<times> effect list" where
  "fetchAndDisplayIP this outcome =
     (case fetched_text outcome of
        Inr t \<Rightarrow>
          (let this1 = this\<lparr>currentIP := t\<rparr> in
           (this1, [SetImage (createTextImage this1 (currentIP this1)),
                    LogInfo (''Fetched WAN IP: '' @ currentIP this1)]))
      | Inl err \<Rightarrow>
          (let this1 = this\<lparr>currentIP := ''Error''\<rparr> in
           (this1, [SetImage (createStatusImage this1 ''No Conn''),
                    LogError ''Failed to fetch WAN IP''])))"

text \<open>
  \<^verbatim>\<open>onWillAppear\<close> up to its first \<^verbatim>\<open>await\<close>: the action and the setting are stored
  (\<^verbatim>\<open>displayLines ?? 1\<close>); the fetch is then pending and other events can be served.
\<close>

definition onWillAppear_begin :: "ShowWanIP \<Rightarrow> nat \<Rightarrow> int option \<Rightarrow> ShowWanIP" where
  "onWillAppear_begin this action setting =
     this\<lparr>currentAction := Some action,
          displayLines := (case setting of None \<Rightarrow> 1 | Some n \<Rightarrow> n)\<rparr>"

definition onDidReceiveSettings :: "ShowWanIP \<Rightarrow> int option \<Rightarrow> ShowWanIP \<times> effect list" where
  "onDidReceiveSettings this setting =
     (let this1 = this\<lparr>displayLines := (case setting of None \<Rightarrow> 1 | Some n \<Rightarrow> n)\<rparr> in
      (this1, if currentAction this1 \<noteq> None
              then [SetImage (createTextImage this1 (currentIP this1))] else []))"

section \<open>The payload can be read back\<close>

text \<open>
  The Base64 digits and the UTF-8 bytes lose nothing: decoding the data URL of a markup
  gives that markup. The statements below about the markup of an image are statements
  about what a consumer of the payload decodes.
\<close>

lemma unat_byte_less: "unat (b :: byte) < 256"
  using unsigned_less [of b, where ?'a = nat] by simp

lemma unat_of_nat_byte: "n < 256 \<Longrightarrow> unat (of_nat n :: byte) = n"
  by (simp add: unat_of_nat)

lemma b64_index_char: "n < 64 \<Longrightarrow> b64_index (b64_char n) = Some n"
  by (auto simp: b64_index_def b64_char_def Let_def)

lemma b64_char_not_pad: "b64_char n \<noteq> CHR ''=''"
  by (auto simp: b64_char_def char_of_eq_iff take_bit_eq_mod)

lemma div_mod_bounds:
  fixes b :: nat
  assumes "b < 256"
  shows "b div 4 < 64" "b div 16 < 16" "b div 64 < 4"
  using assms by simp_all

lemma sextet_bounds:
  fixes a b c :: nat
  assumes "b < 256" "c < 256"
  shows "a mod 4 * 16 < 64" "a mod 4 * 16 + b div 16 < 64"
    "b mod 16 * 4 < 64" "b mod 16 * 4 + c div 64 < 64" "c mod 64 < 64"
proof -
  have a: "a mod 4 < 4" and b: "b mod 16 < 16" by simp_all
  note d = div_mod_bounds [OF assms(1)] div_mod_bounds [OF assms(2)]
  show "a mod 4 * 16 < 64" using a by linarith
  show "a mod 4 * 16 + b div 16 < 64" using a d(2) by linarith
  show "b mod 16 * 4 < 64" using b by linarith
  show "b mod 16 * 4 + c div 64 < 64" using b d(6) by linarith
  show "c mod 64 < 64" by simp
qed

lemma digit_div: "y < k \<Longrightarrow> (x * k + y) div k = (x::nat)"
  by simp

lemma digit_mod: "y < k \<Longrightarrow> (x * k + y) mod k = (y::nat)"
  by simp

lemma regroup:
  fixes a b c :: nat
  assumes "b < 256" "c < 256"
  shows "a div 4 * 4 + (a mod 4 * 16) div 16 = a"
    "a div 4 * 4 + (a mod 4 * 16 + b div 16) div 16 = a"
    "(a mod 4 * 16 + b div 16) mod 16 * 16 + (b mod 16 * 4) div 4 = b"
    "(a mod 4 * 16 + b div 16) mod 16 * 16 + (b mod 16 * 4 + c div 64) div 4 = b"
    "(b mod 16 * 4 + c div 64) mod 4 * 64 + c mod 64 = c"
proof -
  note d = div_mod_bounds [OF assms(1)] div_mod_bounds [OF assms(2)]
  show "a div 4 * 4 + (a mod 4 * 16) div 16 = a" by simp
  show "a div 4 * 4 + (a mod 4 * 16 + b div 16) div 16 = a"
    by (simp only: digit_div [OF d(2)] div_mult_mod_eq)
  show "(a mod 4 * 16 + b div 16) mod 16 * 16 + (b mod 16 * 4) div 4 = b"
    by (simp only: digit_mod [OF d(2)] nonzero_mult_div_cancel_right div_mult_mod_eq)
  show "(a mod 4 * 16 + b div 16) mod 16 * 16 + (b mod 16 * 4 + c div 64) div 4 = b"
    by (simp only: digit_mod [OF d(2)] digit_div [OF d(6)] div_mult_mod_eq)
  show "(b mod 16 * 4 + c div 64) mod 4 * 64 + c mod 64 = c"
    by (simp only: digit_mod [OF d(6)] div_mult_mod_eq)
qed

lemma base64_decode_base64: "base64_decode (base64 bs) = Some bs"
proof (induction bs rule: base64.induct)
  case 1
  show ?case by simp
next
  case (2 a)
  note la = unat_byte_less [of a]
  define i0 i1 where "i0 = unat a div 4" and "i1 = unat a mod 4 * 16"
  have e: "base64 [a] = [b64_char i0, b64_char i1, CHR ''='', CHR ''='']"
    by (simp add: i0_def i1_def)
  have idx: "b64_index (b64_char i0) = Some i0" "b64_index (b64_char i1) = Some i1"
    unfolding i0_def i1_def
    by (rule b64_index_char, rule div_mod_bounds [OF la] sextet_bounds [OF la la])+
  have "i0 * 4 + i1 div 16 = unat a"
    unfolding i0_def i1_def by (rule regroup [OF la la])
  then have w: "(of_nat (i0 * 4 + i1 div 16) :: byte) = a"
    by simp
  show ?case
    unfolding e using idx w by simp
next
  case (3 a b)
  note la = unat_byte_less [of a] and lb = unat_byte_less [of b]
  define i0 i1 i2 where "i0 = unat a div 4" and "i1 = unat a mod 4 * 16 + unat b div 16"
    and "i2 = unat b mod 16 * 4"
  have e: "base64 [a, b] = [b64_char i0, b64_char i1, b64_char i2, CHR ''='']"
    by (simp add: i0_def i1_def i2_def)
  have idx: "b64_index (b64_char i0) = Some i0" "b64_index (b64_char i1) = Some i1"
    "b64_index (b64_char i2) = Some i2"
    unfolding i0_def i1_def i2_def
    by (rule b64_index_char, rule div_mod_bounds [OF la] sextet_bounds [OF lb lb])+
  have "i0 * 4 + i1 div 16 = unat a" "i1 mod 16 * 16 + i2 div 4 = unat b"
    unfolding i0_def i1_def i2_def by (rule regroup [OF lb lb])+
  then have w: "(of_nat (i0 * 4 + i1 div 16) :: byte) = a"
    "(of_nat (i1 mod 16 * 16 + i2 div 4) :: byte) = b"
    by simp_all
  show ?case
    unfolding e using idx w by (simp add: b64_char_not_pad)
next
  case (4 a b c rest)
  note la = unat_byte_less [of a] and lb = unat_byte_less [of b] and lc = unat_byte_less [of c]
  define i0 i1 i2 i3 where "i0 = unat a div 4" and "i1 = unat a mod 4 * 16 + unat b div 16"
    and "i2 = unat b mod 16 * 4 + unat c div 64" and "i3 = unat c mod 64"
  have e: "base64 (a # b # c # rest)
      = b64_char i0 # b64_char i1 # b64_char i2 # b64_char i3 # base64 rest"
    by (simp add: i0_def i1_def i2_def i3_def)
  have idx: "b64_index (b64_char i0) = Some i0" "b64_index (b64_char i1) = Some i1"
    "b64_index (b64_char i2) = Some i2" "b64_index (b64_char i3) = Some i3"
    unfolding i0_def i1_def i2_def i3_def
    by (rule b64_index_char, rule div_mod_bounds [OF la] sextet_bounds [OF lb lc])+
  have "i0 * 4 + i1 div 16 = unat a" "i1 mod 16 * 16 + i2 div 4 = unat b"
    "i2 mod 4 * 64 + i3 = unat c"
    unfolding i0_def i1_def i2_def i3_def by (rule regroup [OF lb lc])+
  then have w: "(of_nat (i0 * 4 + i1 div 16) :: byte) = a"
    "(of_nat (i1 mod 16 * 16 + i2 div 4) :: byte) = b"
    "(of_nat (i2 mod 4 * 64 + i3) :: byte) = c"
    by simp_all
  show ?case
    unfolding e using idx w "4.IH" by (simp add: b64_char_not_pad)
qed

lemma utf8_decode_char: "utf8_decode (utf8_char c @ bs) = map_option ((#) c) (utf8_decode bs)"
proof (cases "(of_char c :: nat) < 128")
  case True
  then have u: "unat (of_nat (of_char c) :: byte) = of_char c"
    by (simp add: unat_of_nat_byte)
  show ?thesis
    using True u by (cases bs) (simp_all add: utf8_char_def Let_def)
next
  case False
  define n :: nat where "n = of_char c"
  have n: "128 \<le> n" "n < 256"
    using False by (simp_all add: n_def)
  have d: "n div 64 < 4" "2 \<le> n div 64" "n mod 64 < 64"
    using n div_le_mono [of 128 n 64] by simp_all
  have b1: "unat (of_nat (192 + n div 64) :: byte) = 192 + n div 64"
    using d by (intro unat_of_nat_byte) linarith
  have b2: "unat (of_nat (128 + n mod 64) :: byte) = 128 + n mod 64"
    using d by (intro unat_of_nat_byte) linarith
  have r: "194 \<le> 192 + n div 64" "192 + n div 64 < 196" "\<not> 192 + n div 64 < 128"
    using d by linarith+
  have c: "char_of (n div 64 * 64 + n mod 64) = c"
    by (simp add: n_def)
  have "utf8_char c = [of_nat (192 + n div 64), of_nat (128 + n mod 64)]"
    using False by (simp add: utf8_char_def n_def Let_def)
  then show ?thesis
    using b1 b2 r c by simp
qed

lemma utf8_decode_encode: "utf8_decode (utf8_encode s) = Some s"
  by (induction s) (simp_all add: utf8_encode_def utf8_decode_char)

lemma decode_data_url_data_url: "decode_data_url (data_url svg) = Some svg"
  by (simp add: decode_data_url_def data_url_def base64_decode_base64 utf8_decode_encode)

section \<open>The numbers of the layout\<close>

text \<open>
  The coordinates and sizes that the templates interpolate, computed in binary64 as the
  program computes them, and the digits that \<^verbatim>\<open>Number::toString\<close> prints for them.
\<close>

lemma num_KEY_SIZE: "num_to_string KEY_SIZE = ''144''"
  unfolding KEY_SIZE_def by code_simp

lemma num_centre: "num_to_string (fdiv KEY_SIZE 2) = ''72''"
  unfolding KEY_SIZE_def by code_simp

lemma num_font_sizes:
  "num_to_string 17 = ''17''" "num_to_string 19 = ''19''" "num_to_string 22 = ''22''"
  "num_to_string 24 = ''24''" "num_to_string 26 = ''26''" "num_to_string 28 = ''28''"
  "num_to_string 30 = ''30''"
  by code_simp+

lemma two_line_y1:
  "fadd (fadd (fdiv (fsub KEY_SIZE (fmul (fmul 28 (js_lit (13 / 10))) 2)) 2)
           (fmul 28 (js_lit (35 / 100))))
        (fmul (fmul 28 (js_lit (13 / 10))) (js_lit (5 / 10)))
   = 2237726064849715 / 35184372088832"
  unfolding KEY_SIZE_def by code_simp

lemma two_line_y2:
  "fadd (fadd (fdiv (fsub KEY_SIZE (fmul (fmul 28 (js_lit (13 / 10))) 2)) 2)
           (fmul 28 (js_lit (35 / 100))))
        (fmul (fmul 28 (js_lit (13 / 10))) (js_lit (15 / 10)))
   = 100"
  unfolding KEY_SIZE_def by code_simp

lemma num_two_line:
  "num_to_string (2237726064849715 / 35184372088832) = ''63.599999999999994''"
  "num_to_string 100 = ''100''"
  by code_simp+

lemma four_line_y:
  "fadd (fadd (fdiv (fsub KEY_SIZE (fmul (fmul 30 (js_lit (11 / 10))) 4)) 2)
           (fmul 30 (js_lit (35 / 100))))
        (fmul (fmul 30 (js_lit (11 / 10))) (fadd (of_nat 0) (js_lit (5 / 10)))) = 33"
  "fadd (fadd (fdiv (fsub KEY_SIZE (fmul (fmul 30 (js_lit (11 / 10))) 4)) 2)
           (fmul 30 (js_lit (35 / 100))))
        (fmul (fmul 30 (js_lit (11 / 10))) (fadd (of_nat 1) (js_lit (5 / 10)))) = 66"
  "fadd (fadd (fdiv (fsub KEY_SIZE (fmul (fmul 30 (js_lit (11 / 10))) 4)) 2)
           (fmul 30 (js_lit (35 / 100))))
        (fmul (fmul 30 (js_lit (11 / 10))) (fadd (of_nat 2) (js_lit (5 / 10)))) = 99"
  "fadd (fadd (fdiv (fsub KEY_SIZE (fmul (fmul 30 (js_lit (11 / 10))) 4)) 2)
           (fmul 30 (js_lit (35 / 100))))
        (fmul (fmul 30 (js_lit (11 / 10))) (fadd (of_nat 3) (js_lit (5 / 10)))) = 132"
  unfolding KEY_SIZE_def by code_simp+

lemma num_four_line:
  "num_to_string 33 = ''33''" "num_to_string 66 = ''66''" "num_to_string 99 = ''99''"
  "num_to_string 132 = ''132''"
  by code_simp+

text \<open>
  Against the same formulas over the rationals: the first centre of the two-line layout
  is 63.6 up to the rounding of binary64, and every other centre is exact.
\<close>

lemma centres_against_exact_arithmetic:
  "\<bar>2237726064849715 / 35184372088832
     - ((144 - 2 * (28 * (13 / 10))) / 2 + 28 * (35 / 100) + 28 * (13 / 10) * (5 / 10))\<bar>
   < (1 / 10 ^ 13 :: rat)"
  "(144 - 2 * (28 * (13 / 10))) / 2 + 28 * (35 / 100) + 28 * (13 / 10) * (15 / 10) = (100 :: rat)"
  "(144 - 4 * (30 * (11 / 10))) / 2 + 30 * (35 / 100) + 30 * (11 / 10) * (0 + 5 / 10) = (33 :: rat)"
  "(144 - 4 * (30 * (11 / 10))) / 2 + 30 * (35 / 100) + 30 * (11 / 10) * (1 + 5 / 10) = (66 :: rat)"
  "(144 - 4 * (30 * (11 / 10))) / 2 + 30 * (35 / 100) + 30 * (11 / 10) * (2 + 5 / 10) = (99 :: rat)"
  "(144 - 4 * (30 * (11 / 10))) / 2 + 30 * (35 / 100) + 30 * (11 / 10) * (3 + 5 / 10) = (132 :: rat)"
  by simp_all

lemma fmul_commute: "fmul a b = fmul b a"
  by (simp add: fmul_def mult.commute)

section \<open>The markup of each renderer\<close>

lemma svg_open_eq:
  \<open>svg_open = ''<svg xmlns="http://www.w3.org/2000/svg" width="144" height="144" viewBox="0 0 144 144"><rect width="144" height="144" fill="black"/>''\<close>
  by (simp add: svg_open_def num_KEY_SIZE)

lemma text_element_eq:
  \<open>text_element y fontSize content =
     ''<text x="72" y="'' @ num_to_string y
     @ ''" text-anchor="middle" dominant-baseline="central" fill="white" font-family="Arial, sans-serif" font-size="''
     @ num_to_string fontSize @ ''" font-weight="bold">'' @ content @ ''</text>''\<close>
  by (simp add: text_element_def num_centre)

lemma interp_index_four:
  "interp_index [a, b, c, d] 0 = a" "interp_index [a, b, c, d] 1 = b"
  "interp_index [a, b, c, d] 2 = c" "interp_index [a, b, c, d] 3 = d"
  by (simp_all add: interp_index_def)

lemma createSingleLineImage_markup:
  "createSingleLineImage this text =
     data_url (svg_open
       @ text_element (fdiv KEY_SIZE 2)
           (if length text \<le> 7 then 26 else if length text \<le> 11 then 22
            else if length text \<le> 13 then 19 else 17) text
       @ svg_close)"
  by (simp add: createSingleLineImage_def Let_def)

lemma createStatusImage_markup:
  "createStatusImage this text =
     data_url (svg_open @ text_element (fdiv KEY_SIZE 2) 24 text @ svg_close)"
  by (simp add: createStatusImage_def Let_def)

lemma createTwoLineImage_markup:
  "createTwoLineImage this octets =
     data_url (svg_open
       @ text_element (2237726064849715 / 35184372088832) 28
           (interp_index octets 0 @ ''.'' @ interp_index octets 1)
       @ text_element 100 28 (interp_index octets 2 @ ''.'' @ interp_index octets 3)
       @ svg_close)"
  unfolding createTwoLineImage_def Let_def two_line_y1 two_line_y2 by (rule refl)

lemma createFourLineImage_markup:
  "createFourLineImage this octets =
     data_url (svg_open
       @ text_element 33 30 (interp_index octets 0)
       @ text_element 66 30 (interp_index octets 1)
       @ text_element 99 30 (interp_index octets 2)
       @ text_element 132 30 (interp_index octets 3)
       @ svg_close)"
  unfolding createFourLineImage_def Let_def four_line_loop.simps four_line_y
  by (simp only: append_Nil append_assoc)

lemma createTextImage_cases:
  "length (split_on (CHR ''.'') ip) \<noteq> 4 \<Longrightarrow> createTextImage this ip = createSingleLineImage this ip"
  "split_on (CHR ''.'') ip = [a, b, c, d] \<Longrightarrow> displayLines this = 4
     \<Longrightarrow> createTextImage this ip = createFourLineImage this [a, b, c, d]"
  "split_on (CHR ''.'') ip = [a, b, c, d] \<Longrightarrow> displayLines this = 2
     \<Longrightarrow> createTextImage this ip = createTwoLineImage this [a, b, c, d]"
  "displayLines this \<noteq> 4 \<Longrightarrow> displayLines this \<noteq> 2
     \<Longrightarrow> createTextImage this ip = createSingleLineImage this ip"
  by (simp_all add: createTextImage_def Let_def)

lemma createTextImage_shape:
  "\<exists>elems. createTextImage this ip =
     data_url (svg_open @ concat (map (\<lambda>(y, f, c). text_element y f c) elems) @ svg_close)"
proof -
  let ?render = "\<lambda>elems. data_url
    (svg_open @ concat (map (\<lambda>(y, f, c). text_element y f c) elems) @ svg_close)"
  let ?octets = "split_on (CHR ''.'') ip"
  consider (single) "createTextImage this ip = createSingleLineImage this ip"
    | (two) "createTextImage this ip = createTwoLineImage this ?octets"
    | (four) "createTextImage this ip = createFourLineImage this ?octets"
    by (cases "length ?octets \<noteq> 4"; cases "displayLines this = 4";
        cases "displayLines this = 2") (simp_all add: createTextImage_def Let_def)
  then show ?thesis
  proof cases
    case single
    have "createSingleLineImage this ip =
      ?render [(fdiv KEY_SIZE 2,
                if length ip \<le> 7 then 26 else if length ip \<le> 11 then 22
                else if length ip \<le> 13 then 19 else 17, ip)]"
      by (simp add: createSingleLineImage_markup)
    with single show ?thesis
      by (simp only:) (rule exI, rule refl)
  next
    case two
    have "createTwoLineImage this ?octets =
      ?render [(2237726064849715 / 35184372088832, 28,
                interp_index ?octets 0 @ ''.'' @ interp_index ?octets 1),
               (100, 28, interp_index ?octets 2 @ ''.'' @ interp_index ?octets 3)]"
      by (simp add: createTwoLineImage_markup)
    with two show ?thesis
      by (simp only:) (rule exI, rule refl)
  next
    case four
    have "createFourLineImage this ?octets =
      ?render [(33, 30, interp_index ?octets 0), (66, 30, interp_index ?octets 1),
               (99, 30, interp_index ?octets 2), (132, 30, interp_index ?octets 3)]"
      by (simp add: createFourLineImage_markup)
    with four show ?thesis
      by (simp only:) (rule exI, rule refl)
  qed
qed

lemma two_line_formula:
  "(let fontSize = 28;
        lineHeight = fmul fontSize (js_lit (13 / 10));
        startY = fadd (fdiv (fsub 144 (fmul 2 lineHeight)) 2) (fmul fontSize (js_lit (35 / 100))) in
    svg_open
    @ text_element (fadd startY (fmul lineHeight (js_lit (5 / 10)))) fontSize l1
    @ text_element (fadd startY (fmul lineHeight (js_lit (15 / 10)))) fontSize l2
    @ svg_close)
   = svg_open @ text_element (2237726064849715 / 35184372088832) 28 l1
     @ text_element 100 28 l2 @ svg_close"
  unfolding Let_def fmul_commute [of 2] KEY_SIZE_def [symmetric] two_line_y1 two_line_y2
  by (rule refl)

lemma four_line_formula:
  "(let fontSize = 30;
        lineHeight = fmul fontSize (js_lit (11 / 10));
        startY = fadd (fdiv (fsub 144 (fmul 4 lineHeight)) 2) (fmul fontSize (js_lit (35 / 100)));
        centre = (\<lambda>i::nat. fadd startY (fmul lineHeight (fadd (of_nat i) (js_lit (5 / 10))))) in
    svg_open
    @ text_element (centre 0) fontSize l0 @ text_element (centre 1) fontSize l1
    @ text_element (centre 2) fontSize l2 @ text_element (centre 3) fontSize l3
    @ svg_close)
   = svg_open @ text_element 33 30 l0 @ text_element 66 30 l1
     @ text_element 99 30 l2 @ text_element 132 30 l3 @ svg_close"
  unfolding Let_def fmul_commute [of 4] KEY_SIZE_def [symmetric] four_line_y
  by (rule refl)

lemma two_line_decoded:
  assumes "split_on (CHR ''.'') ip = [a, b, c, d]" and "displayLines this = 2"
  shows \<open>decode_data_url (createTextImage this ip) =
     Some (''<svg xmlns="http://www.w3.org/2000/svg" width="144" height="144" viewBox="0 0 144 144"><rect width="144" height="144" fill="black"/><text x="72" y="63.599999999999994" text-anchor="middle" dominant-baseline="central" fill="white" font-family="Arial, sans-serif" font-size="28" font-weight="bold">''
       @ a @ ''.'' @ b
       @ ''</text><text x="72" y="100" text-anchor="middle" dominant-baseline="central" fill="white" font-family="Arial, sans-serif" font-size="28" font-weight="bold">''
       @ c @ ''.'' @ d @ ''</text></svg>'')\<close>
proof -
  have m: "createTextImage this ip =
     data_url (svg_open
       @ text_element (2237726064849715 / 35184372088832) 28 (a @ ''.'' @ b)
       @ text_element 100 28 (c @ ''.'' @ d) @ svg_close)"
    by (simp only: createTextImage_cases(3) [OF assms] createTwoLineImage_markup
        interp_index_four)
  show ?thesis
    unfolding m decode_data_url_data_url
    by (simp add: svg_open_eq text_element_eq svg_close_def num_two_line num_font_sizes)
qed

lemma four_line_decoded:
  assumes "split_on (CHR ''.'') ip = [a, b, c, d]" and "displayLines this = 4"
  shows \<open>decode_data_url (createTextImage this ip) =
     Some (''<svg xmlns="http://www.w3.org/2000/svg" width="144" height="144" viewBox="0 0 144 144"><rect width="144" height="144" fill="black"/><text x="72" y="33" text-anchor="middle" dominant-baseline="central" fill="white" font-family="Arial, sans-serif" font-size="30" font-weight="bold">''
       @ a @ ''</text><text x="72" y="66" text-anchor="middle" dominant-baseline="central" fill="white" font-family="Arial, sans-serif" font-size="30" font-weight="bold">''
       @ b @ ''</text><text x="72" y="99" text-anchor="middle" dominant-baseline="central" fill="white" font-family="Arial, sans-serif" font-size="30" font-weight="bold">''
       @ c @ ''</text><text x="72" y="132" text-anchor="middle" dominant-baseline="central" fill="white" font-family="Arial, sans-serif" font-size="30" font-weight="bold">''
       @ d @ ''</text></svg>'')\<close>
proof -
  have m: "createTextImage this ip =
     data_url (svg_open @ text_element 33 30 a @ text_element 66 30 b
       @ text_element 99 30 c @ text_element 132 30 d @ svg_close)"
    by (simp only: createTextImage_cases(2) [OF assms] createFourLineImage_markup
        interp_index_four)
  show ?thesis
    unfolding m decode_data_url_data_url
    by (simp add: svg_open_eq text_element_eq svg_close_def num_four_line num_font_sizes)
qed

lemma single_line_decoded:
  \<open>decode_data_url (createSingleLineImage this text) =
     Some (''<svg xmlns="http://www.w3.org/2000/svg" width="144" height="144" viewBox="0 0 144 144"><rect width="144" height="144" fill="black"/><text x="72" y="72" text-anchor="middle" dominant-baseline="central" fill="white" font-family="Arial, sans-serif" font-size="''
       @ (if length text \<le> 7 then ''26'' else if length text \<le> 11 then ''22''
          else if length text \<le> 13 then ''19'' else ''17'')
       @ ''" font-weight="bold">'' @ text @ ''</text></svg>'')\<close>
  unfolding createSingleLineImage_markup decode_data_url_data_url
  by (simp add: svg_open_eq text_element_eq svg_close_def num_centre num_font_sizes)

lemma status_decoded:
  \<open>decode_data_url (createStatusImage this text) =
     Some (''<svg xmlns="http://www.w3.org/2000/svg" width="144" height="144" viewBox="0 0 144 144"><rect width="144" height="144" fill="black"/><text x="72" y="72" text-anchor="middle" dominant-baseline="central" fill="white" font-family="Arial, sans-serif" font-size="24" font-weight="bold">'' @ text @ ''</text></svg>'')\<close>
  unfolding createStatusImage_markup decode_data_url_data_url
  by (simp add: svg_open_eq text_element_eq svg_close_def num_centre num_font_sizes)

lemma sublist_in_context: "sublist xs ys \<Longrightarrow> sublist xs (ps @ ys @ ss)"
proof -
  assume "sublist xs ys"
  then obtain p s where "ys = p @ xs @ s"
    by (auto simp: sublist_def)
  then have "ps @ ys @ ss = (ps @ p) @ xs @ (s @ ss)"
    by simp
  then show ?thesis
    by (simp only: sublist_appendI)
qed

lemma sublist_text_element: "sublist content (text_element y fontSize content)"
proof -
  have \<open>text_element y fontSize content =
      (''<text x="'' @ num_to_string (fdiv KEY_SIZE 2) @ ''" y="'' @ num_to_string y
       @ ''" text-anchor="middle" dominant-baseline="central" fill="white" font-family="Arial, sans-serif" font-size="''
       @ num_to_string fontSize @ ''" font-weight="bold">'') @ content @ ''</text>''\<close>
    by (simp add: text_element_def)
  then show ?thesis
    by (simp only: sublist_appendI)
qed

section \<open>The claims of the specification\<close>

text \<open>
  Claim C1. An address that does not split into exactly four segments is shown on one line
  whatever the setting (first fact of \<open>createTextImage_cases\<close>), and the claim names the
  placeholder \<^verbatim>\<open>"Loading..."\<close> as such an address. The placeholder has three dots, so it
  splits into four segments, \<^verbatim>\<open>"Loading"\<close> and three empty ones. While the first fetch is
  pending, a change of the setting to two lines redraws the key with the placeholder
  on two lines, \<^verbatim>\<open>Loading.\<close> and \<^verbatim>\<open>.\<close>, against the comment of the source
  ("If not a valid IP format, show as single line").
\<close>

theorem placeholder_is_split:
  \<open>currentIP new_ShowWanIP = ''Loading...''
   \<and> split_on (CHR ''.'') ''Loading...'' = [''Loading'', [], [], []]
   \<and> snd (onDidReceiveSettings (onWillAppear_begin new_ShowWanIP 0 None) (Some 2)) =
       [SetImage (createTextImage
          (new_ShowWanIP\<lparr>currentAction := Some 0, displayLines := 2\<rparr>) ''Loading...'')]
   \<and> decode_data_url (createTextImage
          (new_ShowWanIP\<lparr>currentAction := Some 0, displayLines := 2\<rparr>) ''Loading...'') =
     Some ''<svg xmlns="http://www.w3.org/2000/svg" width="144" height="144" viewBox="0 0 144 144"><rect width="144" height="144" fill="black"/><text x="72" y="63.599999999999994" text-anchor="middle" dominant-baseline="central" fill="white" font-family="Arial, sans-serif" font-size="28" font-weight="bold">Loading.</text><text x="72" y="100" text-anchor="middle" dominant-baseline="central" fill="white" font-family="Arial, sans-serif" font-size="28" font-weight="bold">.</text></svg>''\<close>
proof -
  have s: "split_on (CHR ''.'') ''Loading...'' = [''Loading'', [], [], []]"
    by simp
  have d: "displayLines (new_ShowWanIP\<lparr>currentAction := Some 0, displayLines := 2\<rparr>) = 2"
    by simp
  have e: "snd (onDidReceiveSettings (onWillAppear_begin new_ShowWanIP 0 None) (Some 2)) =
       [SetImage (createTextImage
          (new_ShowWanIP\<lparr>currentAction := Some 0, displayLines := 2\<rparr>) ''Loading...'')]"
    by (simp add: onDidReceiveSettings_def onWillAppear_begin_def new_ShowWanIP_def Let_def)
  have c: "currentIP new_ShowWanIP = ''Loading...''"
    by (simp add: new_ShowWanIP_def)
  from two_line_decoded [OF s d] show ?thesis
    using s e c by simp
qed

text \<open>
  Claim C2. When the address splits into exactly four segments and \<^verbatim>\<open>displayLines\<close> is 2,
  the markup has two text elements: segment 0, a dot, segment 1, and segment 2, a dot,
  segment 3; the font size is 28, the line height 28 \<times> 1.3, the start offset
  (144 - 2 \<times> lineHeight) / 2 + 28 \<times> 0.35, and the lines are centred at
  startY + lineHeight \<times> 0.5 and startY + lineHeight \<times> 1.5, all in the arithmetic of the
  program. The second equation is the same markup with every number printed.
\<close>

theorem two_line_layout:
  assumes "split_on (CHR ''.'') ip = [a, b, c, d]" and "displayLines this = 2"
  shows \<open>decode_data_url (createTextImage this ip) =
     Some (let fontSize = 28;
               lineHeight = fmul fontSize (js_lit (13 / 10));
               startY = fadd (fdiv (fsub 144 (fmul 2 lineHeight)) 2)
                          (fmul fontSize (js_lit (35 / 100))) in
           svg_open
           @ text_element (fadd startY (fmul lineHeight (js_lit (5 / 10)))) fontSize
               (a @ ''.'' @ b)
           @ text_element (fadd startY (fmul lineHeight (js_lit (15 / 10)))) fontSize
               (c @ ''.'' @ d)
           @ svg_close)
    \<and> decode_data_url (createTextImage this ip) =
     Some (''<svg xmlns="http://www.w3.org/2000/svg" width="144" height="144" viewBox="0 0 144 144"><rect width="144" height="144" fill="black"/><text x="72" y="63.599999999999994" text-anchor="middle" dominant-baseline="central" fill="white" font-family="Arial, sans-serif" font-size="28" font-weight="bold">''
       @ a @ ''.'' @ b
       @ ''</text><text x="72" y="100" text-anchor="middle" dominant-baseline="central" fill="white" font-family="Arial, sans-serif" font-size="28" font-weight="bold">''
       @ c @ ''.'' @ d @ ''</text></svg>'')\<close>
proof
  have "createTextImage this ip =
     data_url (svg_open
       @ text_element (2237726064849715 / 35184372088832) 28 (a @ ''.'' @ b)
       @ text_element 100 28 (c @ ''.'' @ d) @ svg_close)"
    by (simp only: createTextImage_cases(3) [OF assms] createTwoLineImage_markup
        interp_index_four)
  then show "decode_data_url (createTextImage this ip) =
     Some (let fontSize = 28;
               lineHeight = fmul fontSize (js_lit (13 / 10));
               startY = fadd (fdiv (fsub 144 (fmul 2 lineHeight)) 2)
                          (fmul fontSize (js_lit (35 / 100))) in
           svg_open
           @ text_element (fadd startY (fmul lineHeight (js_lit (5 / 10)))) fontSize
               (a @ ''.'' @ b)
           @ text_element (fadd startY (fmul lineHeight (js_lit (15 / 10)))) fontSize
               (c @ ''.'' @ d)
           @ svg_close)"
    by (simp only: two_line_formula decode_data_url_data_url)
qed (rule two_line_decoded [OF assms])

text \<open>The address \<^verbatim>\<open>8.8.8.8\<close> on two lines: \<^verbatim>\<open>8.8\<close> and \<^verbatim>\<open>8.8\<close>.\<close>

theorem two_line_layout_witness:
  \<open>split_on (CHR ''.'') ''8.8.8.8'' = [''8'', ''8'', ''8'', ''8'']
   \<and> decode_data_url (createTextImage (new_ShowWanIP\<lparr>displayLines := 2\<rparr>) ''8.8.8.8'') =
     Some ''<svg xmlns="http://www.w3.org/2000/svg" width="144" height="144" viewBox="0 0 144 144"><rect width="144" height="144" fill="black"/><text x="72" y="63.599999999999994" text-anchor="middle" dominant-baseline="central" fill="white" font-family="Arial, sans-serif" font-size="28" font-weight="bold">8.8</text><text x="72" y="100" text-anchor="middle" dominant-baseline="central" fill="white" font-family="Arial, sans-serif" font-size="28" font-weight="bold">8.8</text></svg>''\<close>
proof -
  have s: "split_on (CHR ''.'') ''8.8.8.8'' = [''8'', ''8'', ''8'', ''8'']"
    by simp
  have d: "displayLines (new_ShowWanIP\<lparr>displayLines := 2\<rparr>) = 2"
    by simp
  from two_line_layout [OF s d, THEN conjunct2] show ?thesis
    using s by simp
qed

text \<open>
  Claim C3. When the address splits into exactly four segments and \<^verbatim>\<open>displayLines\<close> is 4,
  the markup has four text elements, one segment each, in the order of the segments; the
  font size is 30, the line height 30 \<times> 1.1, and line \<open>i\<close> (counted from 0) is centred at
  startY + lineHeight \<times> (i + 0.5). The second equation is the same markup with every
  number printed.
\<close>

theorem four_line_layout:
  assumes "split_on (CHR ''.'') ip = [a, b, c, d]" and "displayLines this = 4"
  shows \<open>decode_data_url (createTextImage this ip) =
     Some (let fontSize = 30;
               lineHeight = fmul fontSize (js_lit (11 / 10));
               startY = fadd (fdiv (fsub 144 (fmul 4 lineHeight)) 2)
                          (fmul fontSize (js_lit (35 / 100)));
               centre = (\<lambda>i::nat. fadd startY (fmul lineHeight (fadd (of_nat i) (js_lit (5 / 10))))) in
           svg_open
           @ text_element (centre 0) fontSize a @ text_element (centre 1) fontSize b
           @ text_element (centre 2) fontSize c @ text_element (centre 3) fontSize d
           @ svg_close)
    \<and> decode_data_url (createTextImage this ip) =
     Some (''<svg xmlns="http://www.w3.org/2000/svg" width="144" height="144" viewBox="0 0 144 144"><rect width="144" height="144" fill="black"/><text x="72" y="33" text-anchor="middle" dominant-baseline="central" fill="white" font-family="Arial, sans-serif" font-size="30" font-weight="bold">''
       @ a @ ''</text><text x="72" y="66" text-anchor="middle" dominant-baseline="central" fill="white" font-family="Arial, sans-serif" font-size="30" font-weight="bold">''
       @ b @ ''</text><text x="72" y="99" text-anchor="middle" dominant-baseline="central" fill="white" font-family="Arial, sans-serif" font-size="30" font-weight="bold">''
       @ c @ ''</text><text x="72" y="132" text-anchor="middle" dominant-baseline="central" fill="white" font-family="Arial, sans-serif" font-size="30" font-weight="bold">''
       @ d @ ''</text></svg>'')\<close>
proof
  have "createTextImage this ip =
     data_url (svg_open @ text_element 33 30 a @ text_element 66 30 b
       @ text_element 99 30 c @ text_element 132 30 d @ svg_close)"
    by (simp only: createTextImage_cases(2) [OF assms] createFourLineImage_markup
        interp_index_four)
  then show "decode_data_url (createTextImage this ip) =
     Some (let fontSize = 30;
               lineHeight = fmul fontSize (js_lit (11 / 10));
               startY = fadd (fdiv (fsub 144 (fmul 4 lineHeight)) 2)
                          (fmul fontSize (js_lit (35 / 100)));
               centre = (\<lambda>i::nat. fadd startY (fmul lineHeight (fadd (of_nat i) (js_lit (5 / 10))))) in
           svg_open
           @ text_element (centre 0) fontSize a @ text_element (centre 1) fontSize b
           @ text_element (centre 2) fontSize c @ text_element (centre 3) fontSize d
           @ svg_close)"
    by (simp only: four_line_formula decode_data_url_data_url)
qed (rule four_line_decoded [OF assms])

text \<open>The address \<^verbatim>\<open>203.0.113.77\<close> on four lines: \<^verbatim>\<open>203\<close>, \<^verbatim>\<open>0\<close>, \<^verbatim>\<open>113\<close>, \<^verbatim>\<open>77\<close>.\<close>

theorem four_line_layout_witness:
  \<open>split_on (CHR ''.'') ''203.0.113.77'' = [''203'', ''0'', ''113'', ''77'']
   \<and> decode_data_url (createTextImage (new_ShowWanIP\<lparr>displayLines := 4\<rparr>) ''203.0.113.77'') =
     Some ''<svg xmlns="http://www.w3.org/2000/svg" width="144" height="144" viewBox="0 0 144 144"><rect width="144" height="144" fill="black"/><text x="72" y="33" text-anchor="middle" dominant-baseline="central" fill="white" font-family="Arial, sans-serif" font-size="30" font-weight="bold">203</text><text x="72" y="66" text-anchor="middle" dominant-baseline="central" fill="white" font-family="Arial, sans-serif" font-size="30" font-weight="bold">0</text><text x="72" y="99" text-anchor="middle" dominant-baseline="central" fill="white" font-family="Arial, sans-serif" font-size="30" font-weight="bold">113</text><text x="72" y="132" text-anchor="middle" dominant-baseline="central" fill="white" font-family="Arial, sans-serif" font-size="30" font-weight="bold">77</text></svg>''\<close>
proof -
  have s: "split_on (CHR ''.'') ''203.0.113.77'' = [''203'', ''0'', ''113'', ''77'']"
    by simp
  have d: "displayLines (new_ShowWanIP\<lparr>displayLines := 4\<rparr>) = 4"
    by simp
  from four_line_layout [OF s d, THEN conjunct2] show ?thesis
    using s by simp
qed

text \<open>
  Claim C4. When the address \<open>s\<close> splits into exactly four non-empty segments and
  \<^verbatim>\<open>displayLines\<close> is 1, the markup has one text element, whose content is \<open>s\<close> itself,
  centred at (72, 72); its font size is 26 for a length up to 7, 22 up to 11, 19 up to 13
  and 17 beyond.
\<close>

theorem single_line_layout:
  assumes "split_on (CHR ''.'') s = [a, b, c, d]"
    and "a \<noteq> []" "b \<noteq> []" "c \<noteq> []" "d \<noteq> []"
    and "displayLines this = 1"
  shows \<open>decode_data_url (createTextImage this s) =
     Some (''<svg xmlns="http://www.w3.org/2000/svg" width="144" height="144" viewBox="0 0 144 144"><rect width="144" height="144" fill="black"/><text x="72" y="72" text-anchor="middle" dominant-baseline="central" fill="white" font-family="Arial, sans-serif" font-size="''
       @ (if length s \<le> 7 then ''26'' else if length s \<le> 11 then ''22''
          else if length s \<le> 13 then ''19'' else ''17'')
       @ ''" font-weight="bold">'' @ s @ ''</text></svg>'')\<close>
proof -
  have "createTextImage this s = createSingleLineImage this s"
    using assms(6) by (intro createTextImage_cases(4)) simp_all
  then show ?thesis
    by (simp only: single_line_decoded)
qed

text \<open>The address \<^verbatim>\<open>203.0.113.77\<close> has 12 characters and is drawn on one line at size 19.\<close>

theorem single_line_layout_witness:
  \<open>split_on (CHR ''.'') ''203.0.113.77'' = [''203'', ''0'', ''113'', ''77'']
   \<and> length ''203.0.113.77'' = 12
   \<and> decode_data_url (createTextImage (new_ShowWanIP\<lparr>displayLines := 1\<rparr>) ''203.0.113.77'') =
     Some ''<svg xmlns="http://www.w3.org/2000/svg" width="144" height="144" viewBox="0 0 144 144"><rect width="144" height="144" fill="black"/><text x="72" y="72" text-anchor="middle" dominant-baseline="central" fill="white" font-family="Arial, sans-serif" font-size="19" font-weight="bold">203.0.113.77</text></svg>''\<close>
proof -
  have s: "split_on (CHR ''.'') ''203.0.113.77'' = [''203'', ''0'', ''113'', ''77'']"
    by simp
  have d: "displayLines (new_ShowWanIP\<lparr>displayLines := 1\<rparr>) = 1"
    by simp
  from single_line_layout [OF s _ _ _ _ d] show ?thesis
    using s by simp
qed

text \<open>
  Claim C5. For every address and every value of \<^verbatim>\<open>displayLines\<close> the renderer returns a
  data URL that decodes to a markup between the frame's opening and its closing tag: there
  is no error path. A value of \<^verbatim>\<open>displayLines\<close> other than 1, 2 and 4 gives the single-line
  image.
\<close>

theorem createTextImage_total:
  \<open>(\<exists>body. createTextImage this ip = data_url (svg_open @ body @ svg_close)
            \<and> decode_data_url (createTextImage this ip) = Some (svg_open @ body @ svg_close))
   \<and> (displayLines this \<notin> {1, 2, 4} \<longrightarrow>
        createTextImage this ip = createSingleLineImage this ip
        \<and> decode_data_url (createTextImage this ip) =
           Some (''<svg xmlns="http://www.w3.org/2000/svg" width="144" height="144" viewBox="0 0 144 144"><rect width="144" height="144" fill="black"/><text x="72" y="72" text-anchor="middle" dominant-baseline="central" fill="white" font-family="Arial, sans-serif" font-size="''
             @ (if length ip \<le> 7 then ''26'' else if length ip \<le> 11 then ''22''
                else if length ip \<le> 13 then ''19'' else ''17'')
             @ ''" font-weight="bold">'' @ ip @ ''</text></svg>''))\<close>
proof
  from createTextImage_shape [of this ip] obtain elems where
    "createTextImage this ip =
       data_url (svg_open @ concat (map (\<lambda>(y, f, c). text_element y f c) elems) @ svg_close)"
    by blast
  then show "\<exists>body. createTextImage this ip = data_url (svg_open @ body @ svg_close)
      \<and> decode_data_url (createTextImage this ip) = Some (svg_open @ body @ svg_close)"
    by (auto simp only: decode_data_url_data_url)
next
  show \<open>displayLines this \<notin> {1, 2, 4} \<longrightarrow>
        createTextImage this ip = createSingleLineImage this ip
        \<and> decode_data_url (createTextImage this ip) =
           Some (''<svg xmlns="http://www.w3.org/2000/svg" width="144" height="144" viewBox="0 0 144 144"><rect width="144" height="144" fill="black"/><text x="72" y="72" text-anchor="middle" dominant-baseline="central" fill="white" font-family="Arial, sans-serif" font-size="''
             @ (if length ip \<le> 7 then ''26'' else if length ip \<le> 11 then ''22''
                else if length ip \<le> 13 then ''19'' else ''17'')
             @ ''" font-weight="bold">'' @ ip @ ''</text></svg>'')\<close>
  proof
    assume "displayLines this \<notin> {1, 2, 4}"
    then have "createTextImage this ip = createSingleLineImage this ip"
      by (intro createTextImage_cases(4)) simp_all
    then show \<open>createTextImage this ip = createSingleLineImage this ip
        \<and> decode_data_url (createTextImage this ip) =
           Some (''<svg xmlns="http://www.w3.org/2000/svg" width="144" height="144" viewBox="0 0 144 144"><rect width="144" height="144" fill="black"/><text x="72" y="72" text-anchor="middle" dominant-baseline="central" fill="white" font-family="Arial, sans-serif" font-size="''
             @ (if length ip \<le> 7 then ''26'' else if length ip \<le> 11 then ''22''
                else if length ip \<le> 13 then ''19'' else ''17'')
             @ ''" font-weight="bold">'' @ ip @ ''</text></svg>'')\<close>
      by (simp only: single_line_decoded simp_thms)
  qed
qed

text \<open>With \<^verbatim>\<open>displayLines\<close> at 3, the address \<^verbatim>\<open>8.8.8.8\<close> is drawn on one line at size 26.\<close>

theorem createTextImage_total_witness:
  \<open>displayLines (new_ShowWanIP\<lparr>displayLines := 3\<rparr>) \<notin> {1, 2, 4}
   \<and> split_on (CHR ''.'') ''8.8.8.8'' = [''8'', ''8'', ''8'', ''8'']
   \<and> decode_data_url (createTextImage (new_ShowWanIP\<lparr>displayLines := 3\<rparr>) ''8.8.8.8'') =
     Some ''<svg xmlns="http://www.w3.org/2000/svg" width="144" height="144" viewBox="0 0 144 144"><rect width="144" height="144" fill="black"/><text x="72" y="72" text-anchor="middle" dominant-baseline="central" fill="white" font-family="Arial, sans-serif" font-size="26" font-weight="bold">8.8.8.8</text></svg>''\<close>
proof -
  have d: "displayLines (new_ShowWanIP\<lparr>displayLines := 3\<rparr>) \<notin> {1, 2, 4}"
    by simp
  from createTextImage_total [of "new_ShowWanIP\<lparr>displayLines := 3\<rparr>" "''8.8.8.8''",
      THEN conjunct2, rule_format, OF d, THEN conjunct2]
  show ?thesis
    using d by simp
qed

text \<open>
  Claim C6. For every word, the status image has exactly one text element, centred at
  (72, 72), at font size 24, whatever the length or the content of the word.
\<close>

theorem status_layout:
  \<open>decode_data_url (createStatusImage this text) =
     Some (''<svg xmlns="http://www.w3.org/2000/svg" width="144" height="144" viewBox="0 0 144 144"><rect width="144" height="144" fill="black"/><text x="72" y="72" text-anchor="middle" dominant-baseline="central" fill="white" font-family="Arial, sans-serif" font-size="24" font-weight="bold">'' @ text @ ''</text></svg>'')\<close>
  by (rule status_decoded)

text \<open>
  Claim C7. Every image of the address renderer and of the status renderer is a data URL
  with the prefix \<^verbatim>\<open>data:image/svg+xml;base64,\<close>. It decodes to the frame (a canvas of
  144 by 144 with a black rectangle of the same size) around the text elements of the
  input and of no other: the address alone, its two halves, or its four segments, and the
  word alone for a status. Each element is written by the one template, with \<^verbatim>\<open>x="72"\<close>,
  \<^verbatim>\<open>text-anchor="middle"\<close>, white, bold, sans-serif; only its height, its font size and its
  content vary.
\<close>

theorem canvas_invariant:
  \<open>take 26 (createTextImage this ip) = ''data:image/svg+xml;base64,''
   \<and> decode_data_url (createTextImage this ip) =
       Some (''<svg xmlns="http://www.w3.org/2000/svg" width="144" height="144" viewBox="0 0 144 144"><rect width="144" height="144" fill="black"/>''
         @ concat (map (\<lambda>(y, size, content).
               ''<text x="72" y="'' @ y @ ''" text-anchor="middle" dominant-baseline="central" fill="white" font-family="Arial, sans-serif" font-size="''
               @ size @ ''" font-weight="bold">'' @ content @ ''</text>'')
             (let octets = split_on (CHR ''.'') ip;
                  single = [(''72'',
                             if length ip \<le> 7 then ''26'' else if length ip \<le> 11 then ''22''
                             else if length ip \<le> 13 then ''19'' else ''17'',
                             ip)] in
              if length octets \<noteq> 4 then single
              else if displayLines this = 4
              then [(''33'', ''30'', octets ! 0), (''66'', ''30'', octets ! 1),
                    (''99'', ''30'', octets ! 2), (''132'', ''30'', octets ! 3)]
              else if displayLines this = 2
              then [(''63.599999999999994'', ''28'', octets ! 0 @ ''.'' @ octets ! 1),
                    (''100'', ''28'', octets ! 2 @ ''.'' @ octets ! 3)]
              else single))
         @ ''</svg>'')
   \<and> take 26 (createStatusImage this word) = ''data:image/svg+xml;base64,''
   \<and> decode_data_url (createStatusImage this word) =
       Some (''<svg xmlns="http://www.w3.org/2000/svg" width="144" height="144" viewBox="0 0 144 144"><rect width="144" height="144" fill="black"/>''
         @ concat (map (\<lambda>(y, size, content).
               ''<text x="72" y="'' @ y @ ''" text-anchor="middle" dominant-baseline="central" fill="white" font-family="Arial, sans-serif" font-size="''
               @ size @ ''" font-weight="bold">'' @ content @ ''</text>'')
             [(''72'', ''24'', word)])
         @ ''</svg>'')\<close>
proof (intro conjI)
  from createTextImage_shape [of this ip] obtain elems where
    "createTextImage this ip =
       data_url (svg_open @ concat (map (\<lambda>(y, f, c). text_element y f c) elems) @ svg_close)"
    by blast
  then show "take 26 (createTextImage this ip) = ''data:image/svg+xml;base64,''"
    by (simp add: data_url_def)
  show "take 26 (createStatusImage this word) = ''data:image/svg+xml;base64,''"
    by (simp add: createStatusImage_markup data_url_def)
  show \<open>decode_data_url (createStatusImage this word) =
       Some (''<svg xmlns="http://www.w3.org/2000/svg" width="144" height="144" viewBox="0 0 144 144"><rect width="144" height="144" fill="black"/>''
         @ concat (map (\<lambda>(y, size, content).
               ''<text x="72" y="'' @ y @ ''" text-anchor="middle" dominant-baseline="central" fill="white" font-family="Arial, sans-serif" font-size="''
               @ size @ ''" font-weight="bold">'' @ content @ ''</text>'')
             [(''72'', ''24'', word)])
         @ ''</svg>'')\<close>
    by (simp add: status_decoded)
  let ?octets = "split_on (CHR ''.'') ip"
  show \<open>decode_data_url (createTextImage this ip) =
       Some (''<svg xmlns="http://www.w3.org/2000/svg" width="144" height="144" viewBox="0 0 144 144"><rect width="144" height="144" fill="black"/>''
         @ concat (map (\<lambda>(y, size, content).
               ''<text x="72" y="'' @ y @ ''" text-anchor="middle" dominant-baseline="central" fill="white" font-family="Arial, sans-serif" font-size="''
               @ size @ ''" font-weight="bold">'' @ content @ ''</text>'')
             (let octets = split_on (CHR ''.'') ip;
                  single = [(''72'',
                             if length ip \<le> 7 then ''26'' else if length ip \<le> 11 then ''22''
                             else if length ip \<le> 13 then ''19'' else ''17'',
                             ip)] in
              if length octets \<noteq> 4 then single
              else if displayLines this = 4
              then [(''33'', ''30'', octets ! 0), (''66'', ''30'', octets ! 1),
                    (''99'', ''30'', octets ! 2), (''132'', ''30'', octets ! 3)]
              else if displayLines this = 2
              then [(''63.599999999999994'', ''28'', octets ! 0 @ ''.'' @ octets ! 1),
                    (''100'', ''28'', octets ! 2 @ ''.'' @ octets ! 3)]
              else single))
         @ ''</svg>'')\<close>
  proof (cases "length ?octets \<noteq> 4")
    case True
    then have "createTextImage this ip = createSingleLineImage this ip"
      by (rule createTextImage_cases(1))
    then show ?thesis
      using True by (simp add: single_line_decoded)
  next
    case False
    then obtain a b c d where o: "?octets = [a, b, c, d]"
      by (auto simp: eval_nat_numeral length_Suc_conv)
    show ?thesis
    proof (cases "displayLines this = 4")
      case True
      from four_line_decoded [OF o True] show ?thesis
        using o True by simp
    next
      case n4: False
      show ?thesis
      proof (cases "displayLines this = 2")
        case True
        from two_line_decoded [OF o True] show ?thesis
          using o True by simp
      next
        case False
        with n4 have "createTextImage this ip = createSingleLineImage this ip"
          by (intro createTextImage_cases(4))
        then show ?thesis
          using o n4 False by (simp add: single_line_decoded)
      qed
    qed
  qed
qed

text \<open>The address \<^verbatim>\<open>10.0.0.1\<close> on four lines: four elements of the template, one per segment.\<close>

theorem canvas_invariant_witness:
  \<open>decode_data_url (createTextImage (new_ShowWanIP\<lparr>displayLines := 4\<rparr>) ''10.0.0.1'') =
     Some (''<svg xmlns="http://www.w3.org/2000/svg" width="144" height="144" viewBox="0 0 144 144"><rect width="144" height="144" fill="black"/>''
       @ concat (map (\<lambda>(y, size, content).
             ''<text x="72" y="'' @ y @ ''" text-anchor="middle" dominant-baseline="central" fill="white" font-family="Arial, sans-serif" font-size="''
             @ size @ ''" font-weight="bold">'' @ content @ ''</text>'')
           [(''33'', ''30'', ''10''), (''66'', ''30'', ''0''), (''99'', ''30'', ''0''),
            (''132'', ''30'', ''1'')])
       @ ''</svg>'')\<close>
  using canvas_invariant [of "new_ShowWanIP\<lparr>displayLines := 4\<rparr>" "''10.0.0.1''",
      THEN conjunct2, THEN conjunct1]
  by simp

text \<open>
  Claim C8. The image of an address depends on the address and on \<^verbatim>\<open>displayLines\<close> only,
  and the image of a status word on the word only: no other field of the instance
  (the cached address, the action, the timer) reaches the output, and the renderers
  return nothing but the image.
\<close>

theorem renderer_deterministic:
  assumes "displayLines this1 = displayLines this2"
  shows "createTextImage this1 ip = createTextImage this2 ip
    \<and> createStatusImage this1 word = createStatusImage this2 word"
proof
  have "createSingleLineImage this1 ip = createSingleLineImage this2 ip"
    by (simp add: createSingleLineImage_def)
  moreover have "createTwoLineImage this1 octets = createTwoLineImage this2 octets" for octets
    by (simp add: createTwoLineImage_def)
  moreover have "createFourLineImage this1 octets = createFourLineImage this2 octets" for octets
    by (simp add: createFourLineImage_def)
  ultimately show "createTextImage this1 ip = createTextImage this2 ip"
    using assms by (simp add: createTextImage_def Let_def)
  show "createStatusImage this1 word = createStatusImage this2 word"
    by (simp add: createStatusImage_def)
qed

text \<open>Two instances that agree on \<^verbatim>\<open>displayLines\<close> only draw the same images.\<close>

theorem renderer_deterministic_witness:
  "displayLines (new_ShowWanIP\<lparr>displayLines := 2\<rparr>)
     = displayLines \<lparr>refreshInterval = Some 7, currentIP = ''1.1.1.1'', currentAction = Some 3,
         displayLines = 2\<rparr>
   \<and> createTextImage (new_ShowWanIP\<lparr>displayLines := 2\<rparr>) ''8.8.8.8''
     = createTextImage \<lparr>refreshInterval = Some 7, currentIP = ''1.1.1.1'',
         currentAction = Some 3, displayLines = 2\<rparr> ''8.8.8.8''
   \<and> createStatusImage (new_ShowWanIP\<lparr>displayLines := 2\<rparr>) ''Copied!''
     = createStatusImage \<lparr>refreshInterval = Some 7, currentIP = ''1.1.1.1'',
         currentAction = Some 3, displayLines = 2\<rparr> ''Copied!''"
proof -
  have d: "displayLines (new_ShowWanIP\<lparr>displayLines := 2\<rparr>)
     = displayLines \<lparr>refreshInterval = Some 7, currentIP = ''1.1.1.1'', currentAction = Some 3,
         displayLines = 2\<rparr>"
    by simp
  from renderer_deterministic [OF d] show ?thesis
    using d by blast
qed

text \<open>
  Claim C9. When the fetch fails (the request fails, the response is not \<^verbatim>\<open>ok\<close>, or its
  body cannot be read), the cached address becomes \<^verbatim>\<open>"Error"\<close> and the key shows the status
  image of \<^verbatim>\<open>"No Conn"\<close>, not an image of an address. When it succeeds, the cached address
  becomes the text of the response and the key shows the image of that address.
\<close>

theorem fetch_outcomes:
  \<open>fetchAndDisplayIP this NetworkFailure =
     (this\<lparr>currentIP := ''Error''\<rparr>,
      [SetImage (createStatusImage (this\<lparr>currentIP := ''Error''\<rparr>) ''No Conn''),
       LogError ''Failed to fetch WAN IP''])
   \<and> fetchAndDisplayIP this (Response False status body) =
     (this\<lparr>currentIP := ''Error''\<rparr>,
      [SetImage (createStatusImage (this\<lparr>currentIP := ''Error''\<rparr>) ''No Conn''),
       LogError ''Failed to fetch WAN IP''])
   \<and> fetchAndDisplayIP this (Response True status None) =
     (this\<lparr>currentIP := ''Error''\<rparr>,
      [SetImage (createStatusImage (this\<lparr>currentIP := ''Error''\<rparr>) ''No Conn''),
       LogError ''Failed to fetch WAN IP''])
   \<and> fetchAndDisplayIP this (Response True status (Some t)) =
     (this\<lparr>currentIP := t\<rparr>,
      [SetImage (createTextImage (this\<lparr>currentIP := t\<rparr>) t),
       LogInfo (''Fetched WAN IP: '' @ t)])
   \<and> decode_data_url (createStatusImage (this\<lparr>currentIP := ''Error''\<rparr>) ''No Conn'') =
     Some ''<svg xmlns="http://www.w3.org/2000/svg" width="144" height="144" viewBox="0 0 144 144"><rect width="144" height="144" fill="black"/><text x="72" y="72" text-anchor="middle" dominant-baseline="central" fill="white" font-family="Arial, sans-serif" font-size="24" font-weight="bold">No Conn</text></svg>''\<close>
  by (simp add: fetchAndDisplayIP_def Let_def status_decoded)

text \<open>
  Claim C10 says that the raw input is always a substring of the decoded markup. On two
  lines the address \<^verbatim>\<open>1.2.3.4\<close> is drawn as \<^verbatim>\<open>1.2\<close> and \<^verbatim>\<open>3.4\<close> in two elements: the
  decoded markup is the one below, and it does not contain \<^verbatim>\<open>1.2.3.4\<close>.
\<close>

theorem raw_input_not_always_substring:
  \<open>decode_data_url (createTextImage (new_ShowWanIP\<lparr>displayLines := 2\<rparr>) ''1.2.3.4'') =
     Some ''<svg xmlns="http://www.w3.org/2000/svg" width="144" height="144" viewBox="0 0 144 144"><rect width="144" height="144" fill="black"/><text x="72" y="63.599999999999994" text-anchor="middle" dominant-baseline="central" fill="white" font-family="Arial, sans-serif" font-size="28" font-weight="bold">1.2</text><text x="72" y="100" text-anchor="middle" dominant-baseline="central" fill="white" font-family="Arial, sans-serif" font-size="28" font-weight="bold">3.4</text></svg>''
   \<and> \<not> sublist ''1.2.3.4''
       ''<svg xmlns="http://www.w3.org/2000/svg" width="144" height="144" viewBox="0 0 144 144"><rect width="144" height="144" fill="black"/><text x="72" y="63.599999999999994" text-anchor="middle" dominant-baseline="central" fill="white" font-family="Arial, sans-serif" font-size="28" font-weight="bold">1.2</text><text x="72" y="100" text-anchor="middle" dominant-baseline="central" fill="white" font-family="Arial, sans-serif" font-size="28" font-weight="bold">3.4</text></svg>''\<close>
proof -
  have s: "split_on (CHR ''.'') ''1.2.3.4'' = [''1'', ''2'', ''3'', ''4'']"
    by simp
  have d: "displayLines (new_ShowWanIP\<lparr>displayLines := 2\<rparr>) = 2"
    by simp
  have n: \<open>\<not> sublist ''1.2.3.4''
      ''<svg xmlns="http://www.w3.org/2000/svg" width="144" height="144" viewBox="0 0 144 144"><rect width="144" height="144" fill="black"/><text x="72" y="63.599999999999994" text-anchor="middle" dominant-baseline="central" fill="white" font-family="Arial, sans-serif" font-size="28" font-weight="bold">1.2</text><text x="72" y="100" text-anchor="middle" dominant-baseline="central" fill="white" font-family="Arial, sans-serif" font-size="28" font-weight="bold">3.4</text></svg>''\<close>
    by code_simp
  from two_line_decoded [OF s d] n show ?thesis
    by simp
qed

text \<open>
  Claim C10, amended. The text is interpolated as it is, with no escaping: the status
  word is a substring of the decoded markup, and so is the address whenever it is drawn
  on one line (it does not split into four segments, or \<^verbatim>\<open>displayLines\<close> is neither 2 nor
  4). On two lines the two halves \<^verbatim>\<open>a.b\<close> and \<^verbatim>\<open>c.d\<close> are substrings, and on four lines
  each of the four segments is.
\<close>

theorem text_is_verbatim:
  \<open>(\<exists>svg. decode_data_url (createStatusImage this word) = Some svg \<and> sublist word svg)
   \<and> (length (split_on (CHR ''.'') ip) \<noteq> 4 \<or> displayLines this \<notin> {2, 4} \<longrightarrow>
        (\<exists>svg. decode_data_url (createTextImage this ip) = Some svg \<and> sublist ip svg))
   \<and> (split_on (CHR ''.'') ip = [a, b, c, d] \<and> displayLines this = 2 \<longrightarrow>
        (\<exists>svg. decode_data_url (createTextImage this ip) = Some svg
           \<and> sublist (a @ ''.'' @ b) svg \<and> sublist (c @ ''.'' @ d) svg))
   \<and> (split_on (CHR ''.'') ip = [a, b, c, d] \<and> displayLines this = 4 \<longrightarrow>
        (\<exists>svg. decode_data_url (createTextImage this ip) = Some svg
           \<and> sublist a svg \<and> sublist b svg \<and> sublist c svg \<and> sublist d svg))\<close>
proof (intro conjI impI)
  show "\<exists>svg. decode_data_url (createStatusImage this word) = Some svg \<and> sublist word svg"
    unfolding createStatusImage_markup decode_data_url_data_url
    by (rule exI, rule conjI, rule refl, intro sublist_in_context sublist_text_element)
next
  assume "length (split_on (CHR ''.'') ip) \<noteq> 4 \<or> displayLines this \<notin> {2, 4}"
  then have "createTextImage this ip = createSingleLineImage this ip"
    by (auto simp: createTextImage_def Let_def)
  then show "\<exists>svg. decode_data_url (createTextImage this ip) = Some svg \<and> sublist ip svg"
    unfolding createSingleLineImage_markup
    by (simp only: decode_data_url_data_url)
      (rule exI, rule conjI, rule refl, intro sublist_in_context sublist_text_element)
next
  assume h: "split_on (CHR ''.'') ip = [a, b, c, d] \<and> displayLines this = 2"
  have m: "createTextImage this ip =
     data_url (svg_open
       @ text_element (2237726064849715 / 35184372088832) 28 (a @ ''.'' @ b)
       @ text_element 100 28 (c @ ''.'' @ d) @ svg_close)"
    using h by (simp only: createTextImage_cases(3) createTwoLineImage_markup interp_index_four)
  have 1: "sublist (a @ ''.'' @ b) (svg_open
       @ text_element (2237726064849715 / 35184372088832) 28 (a @ ''.'' @ b)
       @ (text_element 100 28 (c @ ''.'' @ d) @ svg_close))"
    by (intro sublist_in_context sublist_text_element)
  have 2: "sublist (c @ ''.'' @ d) ((svg_open
       @ text_element (2237726064849715 / 35184372088832) 28 (a @ ''.'' @ b))
       @ text_element 100 28 (c @ ''.'' @ d) @ svg_close)"
    by (intro sublist_in_context sublist_text_element)
  show "\<exists>svg. decode_data_url (createTextImage this ip) = Some svg
           \<and> sublist (a @ ''.'' @ b) svg \<and> sublist (c @ ''.'' @ d) svg"
    unfolding m decode_data_url_data_url using 1 2 by simp
next
  assume h: "split_on (CHR ''.'') ip = [a, b, c, d] \<and> displayLines this = 4"
  have m: "createTextImage this ip =
     data_url (svg_open @ text_element 33 30 a @ text_element 66 30 b
       @ text_element 99 30 c @ text_element 132 30 d @ svg_close)"
    using h by (simp only: createTextImage_cases(2) createFourLineImage_markup interp_index_four)
  have 1: "sublist a (svg_open @ text_element 33 30 a @ (text_element 66 30 b
       @ text_element 99 30 c @ text_element 132 30 d @ svg_close))"
    by (intro sublist_in_context sublist_text_element)
  have 2: "sublist b ((svg_open @ text_element 33 30 a) @ text_element 66 30 b
       @ (text_element 99 30 c @ text_element 132 30 d @ svg_close))"
    by (intro sublist_in_context sublist_text_element)
  have 3: "sublist c ((svg_open @ text_element 33 30 a @ text_element 66 30 b)
       @ text_element 99 30 c @ (text_element 132 30 d @ svg_close))"
    by (intro sublist_in_context sublist_text_element)
  have 4: "sublist d ((svg_open @ text_element 33 30 a @ text_element 66 30 b
       @ text_element 99 30 c) @ text_element 132 30 d @ svg_close)"
    by (intro sublist_in_context sublist_text_element)
  show "\<exists>svg. decode_data_url (createTextImage this ip) = Some svg
           \<and> sublist a svg \<and> sublist b svg \<and> sublist c svg \<and> sublist d svg"
    unfolding m decode_data_url_data_url using 1 2 3 4 by simp
qed

text \<open>
  An address with markup characters on one line, and \<^verbatim>\<open>1.2.3.4\<close> on two and on four lines.
\<close>

theorem text_is_verbatim_witness:
  \<open>(\<exists>svg. decode_data_url (createTextImage (new_ShowWanIP\<lparr>displayLines := 1\<rparr>) ''<b>&"'')
          = Some svg \<and> sublist ''<b>&"'' svg)
   \<and> (\<exists>svg. decode_data_url (createTextImage (new_ShowWanIP\<lparr>displayLines := 2\<rparr>) ''1.2.3.4'')
          = Some svg \<and> sublist ''1.2'' svg \<and> sublist ''3.4'' svg)
   \<and> (\<exists>svg. decode_data_url (createTextImage (new_ShowWanIP\<lparr>displayLines := 4\<rparr>) ''1.2.3.4'')
          = Some svg \<and> sublist ''1'' svg \<and> sublist ''2'' svg \<and> sublist ''3'' svg
            \<and> sublist ''4'' svg)\<close>
proof -
  have s: "split_on (CHR ''.'') ''1.2.3.4'' = [''1'', ''2'', ''3'', ''4'']"
    by simp
  have n: \<open>length (split_on (CHR ''.'') ''<b>&"'') \<noteq> 4\<close>
    by simp
  note t1 = text_is_verbatim [of "new_ShowWanIP\<lparr>displayLines := 1\<rparr>" _ \<open>''<b>&"''\<close>,
      THEN conjunct2, THEN conjunct1, rule_format, OF disjI1, OF n]
  note t2 = text_is_verbatim [of "new_ShowWanIP\<lparr>displayLines := 2\<rparr>" _ "''1.2.3.4''"
      "''1''" "''2''" "''3''" "''4''",
      THEN conjunct2, THEN conjunct2, THEN conjunct1, rule_format]
  note t4 = text_is_verbatim [of "new_ShowWanIP\<lparr>displayLines := 4\<rparr>" _ "''1.2.3.4''"
      "''1''" "''2''" "''3''" "''4''",
      THEN conjunct2, THEN conjunct2, THEN conjunct2, rule_format]
  from t1 t2 t4 s show ?thesis
    by simp
qed

end
